theory Spec2Isabelle
  imports Main
begin

section \<open>The data model of \<^verbatim>\<open>uniauth/models.py\<close>\<close>

text \<open>
  The module declares four Django models and two receivers of the user model's
  \<^verbatim>\<open>post_save\<close> signal. The database is modelled as a record of tables, each table a
  list of rows in insertion order, and every receiver as a function from the state before
  to the exception raised (if any) and the state after. Nothing here opens a transaction,
  so the state that is returned next to an exception is the state that stays persisted.
\<close>

datatype exn = IntegrityError | DatabaseError | OverflowError | DoesNotExist

text \<open>
  A \<^verbatim>\<open>datetime\<close> as Python holds it: the date as its proleptic Gregorian ordinal
  (\<^verbatim>\<open>toordinal()\<close>, 1 for 0001-01-01 up to 3652059 for 9999-12-31) and the four time
  fields that \<^verbatim>\<open>replace\<close> can set. All datetimes are read in the time zone of
  \<^verbatim>\<open>timezone.now()\<close>, the one in which the handler zeroes the time of day.
\<close>

record datetime =
  ordinal :: int
  hour :: nat
  minute :: nat
  second :: nat
  microsecond :: nat

text \<open>The only durations the module builds are \<^verbatim>\<open>timedelta(days=n)\<close>.\<close>

datatype timedelta = Timedelta (days: int)

text \<open>
  A row of the user model (\<^verbatim>\<open>get_user_model()\<close>), with the fields the module reads.
  \<open>date_joined\<close> is \<open>None\<close> for a row that carries no creation timestamp.
\<close>

record user =
  pk :: nat
  username :: string
  email :: string
  date_joined :: "datetime option"

text \<open>Relations are stored as Django stores them, by the key of the row they point to.\<close>

record UserProfile =
  profile_pk :: nat
  user_id :: nat

record LinkedEmail =
  email_pk :: nat
  profile_id :: nat
  address :: string
  is_verified :: bool

record Institution =
  institution_pk :: nat
  inst_name :: string
  slug :: string
  cas_server_url :: string

record InstitutionAccount =
  account_pk :: nat
  account_profile_id :: nat
  institution_id :: nat
  cas_id :: string

record db =
  users :: "user list"
  profiles :: "UserProfile list"
  linked_emails :: "LinkedEmail list"
  institutions :: "Institution list"
  accounts :: "InstitutionAccount list"
  next_profile_pk :: nat
  next_email_pk :: nat

text \<open>
  What the handlers read from outside the database: whether the user model class has a
  \<^verbatim>\<open>date_joined\<close> attribute, the setting \<^verbatim>\<open>PASSWORD_RESET_TIMEOUT_DAYS\<close>, the clock
  (\<^verbatim>\<open>timezone.now()\<close>), whether the store refuses a statement (a lost connection,
  a full disk), which Django reports as \<^verbatim>\<open>DatabaseError\<close>, and the database backend the
  project is configured with (\<^verbatim>\<open>connection.vendor\<close>), which decides how a lookup is
  compiled to SQL.
\<close>

datatype statement = Insert_UserProfile | Insert_LinkedEmail | Delete_User

datatype vendor = Sqlite | Postgresql | Mysql | Oracle

record env =
  has_date_joined :: bool
  PASSWORD_RESET_TIMEOUT_DAYS :: int
  now :: datetime
  store_fails :: "statement \<Rightarrow> bool"
  vendor :: vendor

section \<open>The library calls the module makes\<close>

text \<open>
  \<^verbatim>\<open>UserProfile.objects.create(user=instance)\<close>: one INSERT. The column is a
  \<^verbatim>\<open>OneToOneField\<close>, hence unique: a second row for the same user is refused with
  \<^verbatim>\<open>IntegrityError\<close>. A refused insert leaves the table as it was.
\<close>

definition UserProfile_objects_create :: "env \<Rightarrow> db \<Rightarrow> user \<Rightarrow> exn + (UserProfile \<times> db)" where
  "UserProfile_objects_create e d u =
     (if store_fails e Insert_UserProfile then Inl DatabaseError
      else if pk u \<in> set (map user_id (profiles d)) then Inl IntegrityError
      else
        let profile = \<lparr>profile_pk = next_profile_pk d, user_id = pk u\<rparr>
        in Inr (profile,
                d\<lparr>profiles := profiles d @ [profile],
                  next_profile_pk := Suc (next_profile_pk d)\<rparr>))"

text \<open>
  \<^verbatim>\<open>LinkedEmail.objects.create(profile=..., address=..., is_verified=...)\<close>: one INSERT.
  The model declares a plain \<^verbatim>\<open>ForeignKey\<close>, an \<^verbatim>\<open>EmailField\<close> and a
  \<^verbatim>\<open>BooleanField\<close>, none of them unique, so only the store itself can refuse the row.
\<close>

definition LinkedEmail_objects_create ::
    "env \<Rightarrow> db \<Rightarrow> UserProfile \<Rightarrow> string \<Rightarrow> bool \<Rightarrow> exn + (LinkedEmail \<times> db)" where
  "LinkedEmail_objects_create e d profile addr verified =
     (if store_fails e Insert_LinkedEmail then Inl DatabaseError
      else
        let row = \<lparr>email_pk = next_email_pk d, profile_id = profile_pk profile,
                   address = addr, is_verified = verified\<rparr>
        in Inr (row,
                d\<lparr>linked_emails := linked_emails d @ [row],
                  next_email_pk := Suc (next_email_pk d)\<rparr>))"

text \<open>
  Truth value of a model instance in \<^verbatim>\<open>if profile and ...\<close>: the class defines neither
  \<^verbatim>\<open>__bool__\<close> nor \<^verbatim>\<open>__len__\<close>, so every instance is true.
\<close>

definition bool_UserProfile :: "UserProfile \<Rightarrow> bool" where
  "bool_UserProfile profile = True"

text \<open>
  \<^verbatim>\<open>timedelta(days=n)\<close> raises \<^verbatim>\<open>OverflowError\<close> beyond 999999999 days either way.
\<close>

definition timedelta :: "int \<Rightarrow> exn + timedelta" where
  "timedelta n = (if \<bar>n\<bar> > 999999999 then Inl OverflowError else Inr (Timedelta n))"

text \<open>
  \<^verbatim>\<open>datetime - timedelta\<close> for a whole number of days: the date moves, the time of day
  stays, and a date outside years 1 to 9999 raises \<^verbatim>\<open>OverflowError\<close>.
\<close>

definition datetime_sub :: "datetime \<Rightarrow> timedelta \<Rightarrow> exn + datetime" where
  "datetime_sub t delta =
     (let n = ordinal t - days delta
      in if 0 < n \<and> n \<le> 3652059 then Inr (t\<lparr>ordinal := n\<rparr>) else Inl OverflowError)"

text \<open>The order of the \<^verbatim>\<open>__lt\<close> lookup on datetimes: by date, then by time of day.\<close>

definition datetime_lt :: "datetime \<Rightarrow> datetime \<Rightarrow> bool" where
  "datetime_lt a b =
     (ordinal a < ordinal b \<or> (ordinal a = ordinal b \<and>
       (hour a < hour b \<or> (hour a = hour b \<and>
         (minute a < minute b \<or> (minute a = minute b \<and>
           (second a < second b \<or> (second a = second b \<and>
             microsecond a < microsecond b))))))))"

text \<open>Exact prefix test: \<open>s\<close> starts with \<open>p\<close>, character for character.\<close>

definition startswith :: "string \<Rightarrow> string \<Rightarrow> bool" where
  "startswith s p = (take (length p) s = p)"

text \<open>
  The letters A to Z (codes 65 to 90) mapped to a to z by setting the bit of value 32;
  every other character is left alone.
\<close>

definition ascii_lower :: "char \<Rightarrow> char" where
  "ascii_lower c =
     (if 65 \<le> (of_char c :: nat) \<and> (of_char c :: nat) \<le> 90
      then Char (digit0 c) (digit1 c) (digit2 c) (digit3 c) (digit4 c) True
             (digit6 c) (digit7 c)
      else c)"

text \<open>Prefix test that ignores the case of ASCII letters.\<close>

definition istartswith :: "string \<Rightarrow> string \<Rightarrow> bool" where
  "istartswith s p = startswith (map ascii_lower s) (map ascii_lower p)"

text \<open>
  The \<^verbatim>\<open>username__startswith\<close> lookup as the backend runs it. Django compiles it to a
  \<^verbatim>\<open>LIKE\<close> pattern; SQLite's \<^verbatim>\<open>LIKE\<close> ignores the case of ASCII letters, so there
  \<^verbatim>\<open>startswith\<close> acts as \<^verbatim>\<open>istartswith\<close> (as Django's documentation of the lookup
  says). The other backends compare exactly.
\<close>

definition username__startswith :: "vendor \<Rightarrow> string \<Rightarrow> string \<Rightarrow> bool" where
  "username__startswith v s p = (if v = Sqlite then istartswith s p else startswith s p)"

text \<open>
  The query \<^verbatim>\<open>filter(username__startswith='tmp-', date_joined__lt=t)\<close> as a predicate on
  rows. A row without a timestamp matches no comparison, as NULL does in SQL.
\<close>

definition tmp_expired :: "vendor \<Rightarrow> datetime \<Rightarrow> user \<Rightarrow> bool" where
  "tmp_expired v t u =
     (username__startswith v (username u) ''tmp-'' \<and>
      (case date_joined u of None \<Rightarrow> False | Some j \<Rightarrow> datetime_lt j t))"

text \<open>
  \<^verbatim>\<open>QuerySet.delete()\<close> on users: deletes the selected rows and, since every relation
  of the module is declared \<^verbatim>\<open>on_delete=models.CASCADE\<close>, the profiles of those users
  and the linked emails and institution accounts of those profiles. Django runs it in one
  transaction, so a store failure deletes nothing.
\<close>

definition QuerySet_delete :: "env \<Rightarrow> db \<Rightarrow> (user \<Rightarrow> bool) \<Rightarrow> exn option \<times> db" where
  "QuerySet_delete e d sel =
     (if store_fails e Delete_User then (Some DatabaseError, d)
      else
        let gone_users = map pk (filter sel (users d));
            gone_profiles =
              map profile_pk (filter (\<lambda>p. user_id p \<in> set gone_users) (profiles d))
        in (None,
            d\<lparr>users := filter (\<lambda>u. \<not> sel u) (users d),
              profiles := filter (\<lambda>p. user_id p \<notin> set gone_users) (profiles d),
              linked_emails :=
                filter (\<lambda>m. profile_id m \<notin> set gone_profiles) (linked_emails d),
              accounts :=
                filter (\<lambda>a. account_profile_id a \<notin> set gone_profiles) (accounts d)\<rparr>))"

text \<open>
  Following a relation from an instance (\<^verbatim>\<open>self.user\<close>, \<^verbatim>\<open>self.profile\<close>,
  \<^verbatim>\<open>self.institution\<close>) loads the row it points to and raises \<^verbatim>\<open>DoesNotExist\<close> when
  there is none.
\<close>

definition get_user :: "db \<Rightarrow> nat \<Rightarrow> exn + user" where
  "get_user d i =
     (case find (\<lambda>u. pk u = i) (users d) of None \<Rightarrow> Inl DoesNotExist | Some u \<Rightarrow> Inr u)"

definition get_profile :: "db \<Rightarrow> nat \<Rightarrow> exn + UserProfile" where
  "get_profile d i =
     (case find (\<lambda>p. profile_pk p = i) (profiles d) of
        None \<Rightarrow> Inl DoesNotExist | Some p \<Rightarrow> Inr p)"

definition get_institution :: "db \<Rightarrow> nat \<Rightarrow> exn + Institution" where
  "get_institution d i =
     (case find (\<lambda>x. institution_pk x = i) (institutions d) of
        None \<Rightarrow> Inl DoesNotExist | Some x \<Rightarrow> Inr x)"

section \<open>The receivers\<close>

text \<open>
  \<^verbatim>\<open>create_user_profile(sender, instance, created)\<close>, lines 27 to 39.
\<close>

definition create_user_profile :: "env \<Rightarrow> db \<Rightarrow> user \<Rightarrow> bool \<Rightarrow> exn option \<times> db" where
  "create_user_profile e d inst created =
     (if created then
        (case UserProfile_objects_create e d inst of
           Inl x \<Rightarrow> (Some x, d)
         | Inr (profile, d1) \<Rightarrow>
             if bool_UserProfile profile \<and> email inst \<noteq> [] then
               (case LinkedEmail_objects_create e d1 profile (email inst) True of
                  Inl x \<Rightarrow> (Some x, d1)
                | Inr (row, d2) \<Rightarrow> (None, d2))
             else (None, d1))
      else (None, d))"

text \<open>
  \<^verbatim>\<open>clear_old_tmp_users(sender, instance, created)\<close>, lines 42 to 57.
\<close>

definition clear_old_tmp_users :: "env \<Rightarrow> db \<Rightarrow> user \<Rightarrow> bool \<Rightarrow> exn option \<times> db" where
  "clear_old_tmp_users e d inst created =
     (if created then
        if has_date_joined e then
          (case timedelta (PASSWORD_RESET_TIMEOUT_DAYS e) of
             Inl x \<Rightarrow> (Some x, d)
           | Inr timeout_days \<Rightarrow>
               (case datetime_sub (now e) timeout_days of
                  Inl x \<Rightarrow> (Some x, d)
                | Inr t \<Rightarrow>
                    let tmp_expire_date =
                          t\<lparr>hour := 0, minute := 0, second := 0, microsecond := 0\<rparr>
                    in QuerySet_delete e d (tmp_expired (vendor e) tmp_expire_date)))
        else (None, d)
      else (None, d))"

text \<open>
  \<^verbatim>\<open>post_save.send\<close> for the user model: the receivers run in the order the module
  registers them, and an exception of the first one ends the dispatch.
\<close>

definition post_save :: "env \<Rightarrow> db \<Rightarrow> user \<Rightarrow> bool \<Rightarrow> exn option \<times> db" where
  "post_save e d inst created =
     (case create_user_profile e d inst created of
        (Some x, d1) \<Rightarrow> (Some x, d1)
      | (None, d1) \<Rightarrow> clear_old_tmp_users e d1 inst created)"

section \<open>String renderings\<close>

text \<open>
  Each \<^verbatim>\<open>__str__\<close> is a \<^verbatim>\<open>try\<close> block with a bare \<^verbatim>\<open>except\<close>. The block is the
  \<open>_try\<close> function, which can raise; the method maps every exception to the marker.
\<close>

definition UserProfile_str_try :: "db \<Rightarrow> UserProfile \<Rightarrow> exn + string" where
  "UserProfile_str_try d self =
     (case get_user d (user_id self) of
        Inl x \<Rightarrow> Inl x
      | Inr u \<Rightarrow> Inr (if email u \<noteq> [] then email u else username u))"

definition UserProfile_str :: "db \<Rightarrow> UserProfile \<Rightarrow> exn + string" where
  "UserProfile_str d self =
     (case UserProfile_str_try d self of Inl x \<Rightarrow> Inr ''NULL'' | Inr s \<Rightarrow> Inr s)"

definition LinkedEmail_str_try :: "db \<Rightarrow> LinkedEmail \<Rightarrow> exn + string" where
  "LinkedEmail_str_try d self =
     (case get_profile d (profile_id self) of
        Inl x \<Rightarrow> Inl x
      | Inr p \<Rightarrow>
          (case UserProfile_str d p of
             Inl x \<Rightarrow> Inl x
           | Inr s \<Rightarrow> Inr (s @ '' | '' @ address self)))"

definition LinkedEmail_str :: "db \<Rightarrow> LinkedEmail \<Rightarrow> exn + string" where
  "LinkedEmail_str d self =
     (case LinkedEmail_str_try d self of Inl x \<Rightarrow> Inr ''NULL'' | Inr s \<Rightarrow> Inr s)"

definition Institution_str_try :: "db \<Rightarrow> Institution \<Rightarrow> exn + string" where
  "Institution_str_try d self = Inr (slug self)"

definition Institution_str :: "db \<Rightarrow> Institution \<Rightarrow> exn + string" where
  "Institution_str d self =
     (case Institution_str_try d self of Inl x \<Rightarrow> Inr ''NULL'' | Inr s \<Rightarrow> Inr s)"

definition InstitutionAccount_str_try :: "db \<Rightarrow> InstitutionAccount \<Rightarrow> exn + string" where
  "InstitutionAccount_str_try d self =
     (case get_profile d (account_profile_id self) of
        Inl x \<Rightarrow> Inl x
      | Inr p \<Rightarrow>
          (case get_institution d (institution_id self) of
             Inl x \<Rightarrow> Inl x
           | Inr i \<Rightarrow>
               (case UserProfile_str d p of
                  Inl x \<Rightarrow> Inl x
                | Inr s \<Rightarrow>
                    (case Institution_str d i of
                       Inl x \<Rightarrow> Inl x
                     | Inr t \<Rightarrow> Inr (s @ '' | '' @ t @ '' | account'')))))"

definition InstitutionAccount_str :: "db \<Rightarrow> InstitutionAccount \<Rightarrow> exn + string" where
  "InstitutionAccount_str d self =
     (case InstitutionAccount_str_try d self of Inl x \<Rightarrow> Inr ''NULL'' | Inr s \<Rightarrow> Inr s)"

section \<open>A concrete store used in the examples\<close>

definition healthy :: "statement \<Rightarrow> bool" where
  "healthy s = False"

definition email_table_down :: "statement \<Rightarrow> bool" where
  "email_table_down s = (s = Insert_LinkedEmail)"

definition profile_table_down :: "statement \<Rightarrow> bool" where
  "profile_table_down s = (s = Insert_UserProfile)"

definition noon :: "int \<Rightarrow> datetime" where
  "noon n = \<lparr>ordinal = n, hour = 12, minute = 0, second = 0, microsecond = 0\<rparr>"

definition midnight :: "int \<Rightarrow> datetime" where
  "midnight n = \<lparr>ordinal = n, hour = 0, minute = 0, second = 0, microsecond = 0\<rparr>"

text \<open>
  Day 738000 at noon, a window of three days (Django's default), a working store, on
  PostgreSQL.
\<close>

definition env0 :: env where
  "env0 = \<lparr>has_date_joined = True, PASSWORD_RESET_TIMEOUT_DAYS = 3,
           now = noon 738000, store_fails = healthy, vendor = Postgresql\<rparr>"


definition tomorrow :: env where
  "tomorrow = env0\<lparr>now := noon 738001\<rparr>"

definition zero_window :: env where
  "zero_window = env0\<lparr>PASSWORD_RESET_TIMEOUT_DAYS := 0, now := noon 738001\<rparr>"

definition week_window :: "int \<Rightarrow> env" where
  "week_window n = env0\<lparr>PASSWORD_RESET_TIMEOUT_DAYS := 7, now := noon n\<rparr>"

definition huge_window :: env where
  "huge_window = env0\<lparr>PASSWORD_RESET_TIMEOUT_DAYS := 1000000000\<rparr>"

definition no_timestamps :: env where
  "no_timestamps = env0\<lparr>has_date_joined := False\<rparr>"

definition alice :: user where
  "alice = \<lparr>pk = 1, username = ''alice'', email = ''a@x.com'',
            date_joined = Some (noon 738000)\<rparr>"

definition bob :: user where
  "bob = \<lparr>pk = 2, username = ''bob'', email = [], date_joined = Some (noon 738000)\<rparr>"

definition tmp_foo :: user where
  "tmp_foo = \<lparr>pk = 3, username = ''tmp-foo'', email = [],
              date_joined = Some (noon 737990)\<rparr>"

text \<open>Joined exactly at the cutoff of \<open>env0\<close>, midnight of day 737997.\<close>

definition tmp_edge :: user where
  "tmp_edge = \<lparr>pk = 4, username = ''tmp-edge'', email = [],
               date_joined = Some (midnight 737997)\<rparr>"

definition old_timer :: user where
  "old_timer = \<lparr>pk = 5, username = ''admin'', email = ''root@x.com'',
                date_joined = Some (noon 700000)\<rparr>"

definition tmp_new :: user where
  "tmp_new = \<lparr>pk = 6, username = ''tmp-new'', email = [],
              date_joined = Some (noon 738000)\<rparr>"



text \<open>Alice has just been saved and has no profile yet.\<close>

definition db0 :: db where
  "db0 = \<lparr>users = [alice], profiles = [], linked_emails = [], institutions = [],
          accounts = [], next_profile_pk = 1, next_email_pk = 1\<rparr>"

definition example_univ :: Institution where
  "example_univ = \<lparr>institution_pk = 1, inst_name = ''Example University'',
                   slug = ''example'', cas_server_url = ''https://cas.example.edu''\<rparr>"

text \<open>A populated store; Bob has just been saved.\<close>

definition db1 :: db where
  "db1 = \<lparr>users = [alice, tmp_foo, tmp_edge, old_timer, tmp_new, bob],
          profiles = [\<lparr>profile_pk = 1, user_id = 1\<rparr>, \<lparr>profile_pk = 2, user_id = 3\<rparr>],
          linked_emails =
            [\<lparr>email_pk = 1, profile_id = 1, address = ''a@x.com'', is_verified = True\<rparr>,
             \<lparr>email_pk = 2, profile_id = 2, address = ''foo@x.com'', is_verified = False\<rparr>],
          institutions = [example_univ],
          accounts =
            [\<lparr>account_pk = 1, account_profile_id = 1, institution_id = 1, cas_id = ''abc1''\<rparr>],
          next_profile_pk = 3, next_email_pk = 3\<rparr>"


text \<open>Instances whose relations point nowhere.\<close>

definition orphan_profile :: UserProfile where
  "orphan_profile = \<lparr>profile_pk = 9, user_id = 99\<rparr>"

definition orphan_email :: LinkedEmail where
  "orphan_email = \<lparr>email_pk = 9, profile_id = 77, address = ''lost@x.com'',
                   is_verified = False\<rparr>"

definition orphan_account :: InstitutionAccount where
  "orphan_account = \<lparr>account_pk = 9, account_profile_id = 1, institution_id = 55,
                     cas_id = ''zzz9''\<rparr>"

section \<open>Facts about the library calls\<close>

lemma UserProfile_create_fresh:
  assumes "\<not> store_fails e Insert_UserProfile"
      and "pk inst \<notin> set (map user_id (profiles d))"
  shows "UserProfile_objects_create e d inst =
           Inr (\<lparr>profile_pk = next_profile_pk d, user_id = pk inst\<rparr>,
                d\<lparr>profiles :=
                    profiles d @ [\<lparr>profile_pk = next_profile_pk d, user_id = pk inst\<rparr>],
                  next_profile_pk := Suc (next_profile_pk d)\<rparr>)"
  using assms by (simp add: UserProfile_objects_create_def Let_def)

lemma UserProfile_create_appends:
  assumes "UserProfile_objects_create e d inst = Inr (p, d1)"
  shows "profiles d1 = profiles d @ [p] \<and> user_id p = pk inst \<and>
         linked_emails d1 = linked_emails d \<and> next_email_pk d1 = next_email_pk d"
  using assms by (auto simp: UserProfile_objects_create_def Let_def split: if_splits)

lemma handler_profiles:
  assumes "UserProfile_objects_create e d inst = Inr (p, d1)"
  shows "profiles (snd (create_user_profile e d inst True)) = profiles d1"
  using assms
  by (simp add: create_user_profile_def LinkedEmail_objects_create_def Let_def)

lemma handler_existing_profile:
  assumes "\<not> store_fails e Insert_UserProfile"
      and "pk inst \<in> set (map user_id (profiles d))"
  shows "create_user_profile e d inst True = (Some IntegrityError, d)"
  using assms by (simp add: create_user_profile_def UserProfile_objects_create_def)




lemma startswith_istartswith:
  assumes "startswith s p"
  shows "istartswith s p"
proof -
  from assms have "take (length p) s = p"
    by (simp add: startswith_def)
  then have "map ascii_lower (take (length p) s) = map ascii_lower p"
    by simp
  then show ?thesis
    by (simp add: istartswith_def startswith_def take_map)
qed

lemma midnight_not_after:
  assumes "ordinal t \<le> ordinal j"
      and "hour t = 0" and "minute t = 0" and "second t = 0" and "microsecond t = 0"
  shows "\<not> datetime_lt j t"
  using assms by (auto simp: datetime_lt_def)

section \<open>Profile bootstrap\<close>

text \<open>
  C1. On a \<^verbatim>\<open>post_save\<close> with \<open>created\<close> set, for a user that has no profile yet and
  a store that accepts the insert, \<open>create_user_profile\<close> adds exactly one row to the
  profile table, and that row belongs to the new user; afterwards the user has exactly
  one profile. The handler looks at nothing but the \<open>created\<close> flag: replayed on the
  resulting state it attempts the insert again, the one-to-one column refuses it with
  \<^verbatim>\<open>IntegrityError\<close>, and no second profile appears.
\<close>

theorem create_user_profile_exactly_one:
  assumes healthy: "\<not> store_fails e Insert_UserProfile"
      and fresh: "pk inst \<notin> set (map user_id (profiles d))"
  shows "let d' = snd (create_user_profile e d inst True)
         in (\<exists>p. profiles d' = profiles d @ [p] \<and> user_id p = pk inst) \<and>
            length (filter (\<lambda>p. user_id p = pk inst) (profiles d')) = 1 \<and>
            create_user_profile e d' inst True = (Some IntegrityError, d')"
proof -
  define p where "p = \<lparr>profile_pk = next_profile_pk d, user_id = pk inst\<rparr>"
  define d' where "d' = snd (create_user_profile e d inst True)"
  have tbl: "profiles d' = profiles d @ [p]"
    unfolding d'_def p_def
    using handler_profiles [OF UserProfile_create_fresh [OF healthy fresh]] by simp
  have none: "filter (\<lambda>q. user_id q = pk inst) (profiles d) = []"
    using fresh by (force simp: filter_empty_conv)
  have one: "length (filter (\<lambda>q. user_id q = pk inst) (profiles d')) = 1"
    by (simp add: tbl none p_def)
  have "pk inst \<in> set (map user_id (profiles d'))"
    by (simp add: tbl p_def)
  then have again: "create_user_profile e d' inst True = (Some IntegrityError, d')"
    by (rule handler_existing_profile [OF healthy])
  have "user_id p = pk inst"
    by (simp add: p_def)
  with tbl one again show ?thesis
    unfolding d'_def Let_def by blast
qed

theorem create_user_profile_exactly_one_witness:
  "\<not> store_fails env0 Insert_UserProfile \<and>
   pk alice \<notin> set (map user_id (profiles db0)) \<and>
   (let d' = snd (create_user_profile env0 db0 alice True)
    in (\<exists>p. profiles d' = profiles db0 @ [p] \<and> user_id p = pk alice) \<and>
       length (filter (\<lambda>p. user_id p = pk alice) (profiles d')) = 1 \<and>
       create_user_profile env0 d' alice True = (Some IntegrityError, d'))"
proof -
  have h1: "\<not> store_fails env0 Insert_UserProfile"
    by (simp add: env0_def healthy_def)
  have h2: "pk alice \<notin> set (map user_id (profiles db0))"
    by (simp add: db0_def)
  from h1 h2 create_user_profile_exactly_one [OF h1 h2] show ?thesis
    by (intro conjI)
qed

section \<open>Verified-email seeding\<close>

text \<open>
  C2. On a user-created event, when the profile was created and the user's email is not
  empty (and the store accepts the row), the handler adds exactly one linked email: it
  points to the new profile, its address is the user's email and it is verified. When
  the email is empty no linked email is added. When the profile creation raised, none is
  added either: seeding runs only after the profile creation has returned.
\<close>

theorem create_user_profile_seeds_email:
  "let d' = snd (create_user_profile e d inst True)
   in (\<forall>p d1. UserProfile_objects_create e d inst = Inr (p, d1) \<and> email inst \<noteq> [] \<and>
          \<not> store_fails e Insert_LinkedEmail \<longrightarrow>
          linked_emails d' = linked_emails d @
            [\<lparr>email_pk = next_email_pk d, profile_id = profile_pk p,
              address = email inst, is_verified = True\<rparr>]) \<and>
      (email inst = [] \<longrightarrow> linked_emails d' = linked_emails d) \<and>
      (\<forall>x. UserProfile_objects_create e d inst = Inl x \<longrightarrow>
          linked_emails d' = linked_emails d)"
  by (auto simp: create_user_profile_def UserProfile_objects_create_def
        LinkedEmail_objects_create_def bool_UserProfile_def Let_def split: if_splits)

theorem create_user_profile_seeds_email_witness:
  "linked_emails (snd (create_user_profile env0 db0 alice True)) =
     [\<lparr>email_pk = 1, profile_id = 1, address = ''a@x.com'', is_verified = True\<rparr>] \<and>
   linked_emails (snd (create_user_profile env0 db0 bob True)) = [] \<and>
   linked_emails
     (snd (create_user_profile (env0\<lparr>store_fails := profile_table_down\<rparr>) db0 alice True)) = []"
proof -
  let ?p = "\<lparr>profile_pk = 1, user_id = 1\<rparr>"
  let ?down = "env0\<lparr>store_fails := profile_table_down\<rparr>"
  have made: "UserProfile_objects_create env0 db0 alice =
      Inr (?p, db0\<lparr>profiles := [?p], next_profile_pk := 2\<rparr>)"
    by (simp add: UserProfile_objects_create_def env0_def db0_def alice_def healthy_def
          Let_def)
  have mail: "email alice \<noteq> []"
    by (simp add: alice_def)
  have ok: "\<not> store_fails env0 Insert_LinkedEmail"
    by (simp add: env0_def healthy_def)
  have nomail: "email bob = []"
    by (simp add: bob_def)
  have refused: "UserProfile_objects_create ?down db0 alice = Inl DatabaseError"
    by (simp add: UserProfile_objects_create_def env0_def profile_table_down_def)
  have "linked_emails (snd (create_user_profile env0 db0 alice True)) =
      linked_emails db0 @ [\<lparr>email_pk = next_email_pk db0, profile_id = profile_pk ?p,
         address = email alice, is_verified = True\<rparr>]"
    using create_user_profile_seeds_email [of env0 db0 alice] made mail ok
    unfolding Let_def by blast
  moreover have
    "linked_emails (snd (create_user_profile env0 db0 bob True)) = linked_emails db0"
    using create_user_profile_seeds_email [of env0 db0 bob] nomail
    unfolding Let_def by blast
  moreover have
    "linked_emails (snd (create_user_profile ?down db0 alice True)) = linked_emails db0"
    using create_user_profile_seeds_email [of ?down db0 alice] refused
    unfolding Let_def by blast
  ultimately show ?thesis
    by (simp add: db0_def alice_def)
qed

text \<open>
  C9. The handler is not atomic. When the profile insert succeeds and the linked-email
  insert that follows raises, the handler raises that exception (and so does the signal
  dispatch, which never reaches the sweep), while the state left behind is the one after
  the profile insert: the new profile is in the table and no linked email was added.
\<close>

theorem create_user_profile_not_atomic:
  assumes "UserProfile_objects_create e d inst = Inr (p, d1)"
      and "email inst \<noteq> []"
      and "LinkedEmail_objects_create e d1 p (email inst) True = Inl x"
  shows "create_user_profile e d inst True = (Some x, d1) \<and>
         post_save e d inst True = (Some x, d1) \<and>
         profiles d1 = profiles d @ [p] \<and> linked_emails d1 = linked_emails d"
  using assms UserProfile_create_appends [OF assms(1)]
  by (simp add: create_user_profile_def post_save_def bool_UserProfile_def)

theorem create_user_profile_not_atomic_witness:
  "create_user_profile (env0\<lparr>store_fails := email_table_down\<rparr>) db0 alice True =
     (Some DatabaseError,
      db0\<lparr>profiles := [\<lparr>profile_pk = 1, user_id = 1\<rparr>], next_profile_pk := 2\<rparr>) \<and>
   post_save (env0\<lparr>store_fails := email_table_down\<rparr>) db0 alice True =
     (Some DatabaseError,
      db0\<lparr>profiles := [\<lparr>profile_pk = 1, user_id = 1\<rparr>], next_profile_pk := 2\<rparr>)"
proof -
  let ?e = "env0\<lparr>store_fails := email_table_down\<rparr>"
  let ?p = "\<lparr>profile_pk = 1, user_id = 1\<rparr>"
  let ?d1 = "db0\<lparr>profiles := [?p], next_profile_pk := 2\<rparr>"
  have made: "UserProfile_objects_create ?e db0 alice = Inr (?p, ?d1)"
    by (simp add: UserProfile_objects_create_def env0_def db0_def alice_def
          email_table_down_def Let_def)
  have mail: "email alice \<noteq> []"
    by (simp add: alice_def)
  have refused: "LinkedEmail_objects_create ?e ?d1 ?p (email alice) True = Inl DatabaseError"
    by (simp add: LinkedEmail_objects_create_def env0_def email_table_down_def)
  from create_user_profile_not_atomic [OF made mail refused] show ?thesis
    by blast
qed

section \<open>Retention sweep\<close>




text \<open>
  The two sweep scenarios of the specification: \<^verbatim>\<open>tmp-foo\<close> joined on day 737990 and the
  window is seven days. A user created ten days later triggers a sweep that deletes
  \<^verbatim>\<open>tmp-foo\<close>; one created five days later does not.
\<close>

lemma sweep_scenarios:
  "tmp_foo \<notin> set (users (snd (clear_old_tmp_users (week_window 738000) db1 bob True))) \<and>
   tmp_foo \<in> set (users (snd (clear_old_tmp_users (week_window 737995) db1 bob True)))"
  by (simp add: clear_old_tmp_users_def QuerySet_delete_def tmp_expired_def
        username__startswith_def timedelta_def datetime_sub_def datetime_lt_def
        startswith_def week_window_def env0_def healthy_def db1_def alice_def bob_def
        tmp_foo_def tmp_edge_def old_timer_def tmp_new_def noon_def midnight_def Let_def)

text \<open>
  A window that \<^verbatim>\<open>timedelta\<close> cannot hold makes the handler raise before any query.
\<close>

lemma sweep_overflow:
  "clear_old_tmp_users huge_window db1 bob True = (Some OverflowError, db1)"
  by (simp add: clear_old_tmp_users_def timedelta_def huge_window_def env0_def)




text \<open>
  C5, as amended. With a configured window of at least one day, a user whose username
  starts with \<^verbatim>\<open>tmp-\<close> and whose creation timestamp falls on day D is still in the user
  table after a sweep run on day D or on day D+1.
\<close>

theorem clear_old_tmp_users_grace:
  assumes "1 \<le> PASSWORD_RESET_TIMEOUT_DAYS e"
      and "startswith (username u) ''tmp-''"
      and "u \<in> set (users d)"
      and "date_joined u = Some j"
      and "ordinal (now e) = ordinal j \<or> ordinal (now e) = ordinal j + 1"
  shows "u \<in> set (users (snd (clear_old_tmp_users e d inst created)))"
proof -
  have "\<not> tmp_expired v (t\<lparr>hour := 0, minute := 0, second := 0, microsecond := 0\<rparr>) u"
    if "ordinal t \<le> ordinal j" for t :: datetime and v
    using that assms(4) by (simp add: tmp_expired_def midnight_not_after)
  moreover have "ordinal t \<le> ordinal j"
    if "datetime_sub (now e) (Timedelta (PASSWORD_RESET_TIMEOUT_DAYS e)) = Inr t" for t
    using that assms(1,5) by (auto simp: datetime_sub_def Let_def split: if_splits)
  ultimately show ?thesis
    using assms(3)
    by (auto simp: clear_old_tmp_users_def QuerySet_delete_def timedelta_def Let_def
          split: sum.splits if_splits)
qed

theorem clear_old_tmp_users_grace_witness:
  "1 \<le> PASSWORD_RESET_TIMEOUT_DAYS tomorrow \<and>
   startswith (username tmp_new) ''tmp-'' \<and>
   tmp_new \<in> set (users db1) \<and>
   date_joined tmp_new = Some (noon 738000) \<and>
   ordinal (now tomorrow) = ordinal (noon 738000) + 1 \<and>
   tmp_new \<in> set (users (snd (clear_old_tmp_users tomorrow db1 bob True)))"
proof -
  have h1: "1 \<le> PASSWORD_RESET_TIMEOUT_DAYS tomorrow"
    by (simp add: tomorrow_def env0_def)
  have h2: "startswith (username tmp_new) ''tmp-''"
    by (simp add: tmp_new_def startswith_def)
  have h3: "tmp_new \<in> set (users db1)"
    by (simp add: db1_def)
  have h4: "date_joined tmp_new = Some (noon 738000)"
    by (simp add: tmp_new_def)
  have h5: "ordinal (now tomorrow) = ordinal (noon 738000) + 1"
    by (simp add: tomorrow_def env0_def noon_def)
  from h1 h2 h3 h4 h5 clear_old_tmp_users_grace [OF h1 h2 h3 h4 disjI2 [OF h5]]
  show ?thesis
    by (intro conjI)
qed

text \<open>
  The claim as written, for any window, fails at a window of zero days: a \<^verbatim>\<open>tmp-\<close> user
  who joined on day 738000 at noon is deleted by a sweep on day 738001, whose cutoff is
  midnight of day 738001.
\<close>

theorem clear_old_tmp_users_grace_counterexample:
  "startswith (username tmp_new) ''tmp-'' \<and>
   tmp_new \<in> set (users db1) \<and>
   date_joined tmp_new = Some (noon 738000) \<and>
   ordinal (now zero_window) = ordinal (noon 738000) + 1 \<and>
   PASSWORD_RESET_TIMEOUT_DAYS zero_window = 0 \<and>
   tmp_new \<notin> set (users (snd (clear_old_tmp_users zero_window db1 bob True)))"
  by (simp add: clear_old_tmp_users_def QuerySet_delete_def tmp_expired_def
        username__startswith_def timedelta_def datetime_sub_def datetime_lt_def
        startswith_def zero_window_def env0_def healthy_def db1_def alice_def bob_def
        tmp_foo_def tmp_edge_def old_timer_def tmp_new_def noon_def midnight_def Let_def)

text \<open>
  C6. When the user model has no \<^verbatim>\<open>date_joined\<close> attribute, the sweep deletes nothing
  and raises nothing, on every event.
\<close>

theorem clear_old_tmp_users_without_date_joined:
  "\<not> has_date_joined e \<Longrightarrow> clear_old_tmp_users e d inst created = (None, d)"
  by (simp add: clear_old_tmp_users_def)

theorem clear_old_tmp_users_without_date_joined_witness:
  "\<not> has_date_joined no_timestamps \<and>
   tmp_foo \<in> set (users db1) \<and>
   clear_old_tmp_users no_timestamps db1 bob True = (None, db1)"
proof -
  have h: "\<not> has_date_joined no_timestamps"
    by (simp add: no_timestamps_def env0_def)
  have "tmp_foo \<in> set (users db1)"
    by (simp add: db1_def)
  with h clear_old_tmp_users_without_date_joined [OF h] show ?thesis
    by (intro conjI)
qed

section \<open>Frame: an update event changes nothing\<close>

text \<open>
  C8. When \<^verbatim>\<open>post_save\<close> fires with \<open>created\<close> false (a user was updated), neither
  receiver changes the state or raises: no profile and no linked email is created and no
  user is deleted; the dispatch of both leaves the database as it was.
\<close>

theorem not_created_no_change:
  "create_user_profile e d inst False = (None, d) \<and>
   clear_old_tmp_users e d inst False = (None, d) \<and>
   post_save e d inst False = (None, d)"
  by (simp add: create_user_profile_def clear_old_tmp_users_def post_save_def)

theorem not_created_no_change_witness:
  "create_user_profile env0 db1 bob False = (None, db1) \<and>
   clear_old_tmp_users env0 db1 bob False = (None, db1) \<and>
   post_save env0 db1 bob False = (None, db1)"
  by (rule not_created_no_change)

section \<open>No uniqueness on linked emails\<close>

text \<open>
  C10. Nothing in the data model makes a linked email unique. Whenever the store accepts
  inserts, creating a verified linked email for a profile and an address twice in a row
  succeeds both times and leaves two distinct rows with the same profile and the same
  address, both verified.
\<close>

theorem LinkedEmail_not_unique:
  assumes "\<not> store_fails e Insert_LinkedEmail"
  shows "\<exists>r1 d1 r2 d2.
           LinkedEmail_objects_create e d p a True = Inr (r1, d1) \<and>
           LinkedEmail_objects_create e d1 p a True = Inr (r2, d2) \<and>
           linked_emails d2 = linked_emails d @ [r1, r2] \<and>
           r1 \<noteq> r2 \<and> profile_id r1 = profile_pk p \<and> profile_id r2 = profile_pk p \<and>
           address r1 = a \<and> address r2 = a \<and> is_verified r1 \<and> is_verified r2"
  using assms by (simp add: LinkedEmail_objects_create_def Let_def)

theorem LinkedEmail_not_unique_witness:
  "\<not> store_fails env0 Insert_LinkedEmail \<and>
   (\<exists>r1 d1 r2 d2.
      LinkedEmail_objects_create env0 db1 \<lparr>profile_pk = 1, user_id = 1\<rparr> ''a@x.com'' True =
        Inr (r1, d1) \<and>
      LinkedEmail_objects_create env0 d1 \<lparr>profile_pk = 1, user_id = 1\<rparr> ''a@x.com'' True =
        Inr (r2, d2) \<and>
      linked_emails d2 = linked_emails db1 @ [r1, r2] \<and>
      r1 \<noteq> r2 \<and> profile_id r1 = 1 \<and> profile_id r2 = 1 \<and>
      address r1 = ''a@x.com'' \<and> address r2 = ''a@x.com'' \<and>
      is_verified r1 \<and> is_verified r2)"
proof -
  have h: "\<not> store_fails env0 Insert_LinkedEmail"
    by (simp add: env0_def healthy_def)
  from LinkedEmail_not_unique [OF h, of db1 "\<lparr>profile_pk = 1, user_id = 1\<rparr>" "''a@x.com''"]
  have "\<exists>r1 d1 r2 d2.
      LinkedEmail_objects_create env0 db1 \<lparr>profile_pk = 1, user_id = 1\<rparr> ''a@x.com'' True =
        Inr (r1, d1) \<and>
      LinkedEmail_objects_create env0 d1 \<lparr>profile_pk = 1, user_id = 1\<rparr> ''a@x.com'' True =
        Inr (r2, d2) \<and>
      linked_emails d2 = linked_emails db1 @ [r1, r2] \<and>
      r1 \<noteq> r2 \<and> profile_id r1 = 1 \<and> profile_id r2 = 1 \<and>
      address r1 = ''a@x.com'' \<and> address r2 = ''a@x.com'' \<and>
      is_verified r1 \<and> is_verified r2"
    by simp
  with h show ?thesis
    by (intro conjI)
qed

section \<open>String renderings never raise\<close>

text \<open>What the renderings look like on intact rows of the example store.\<close>

lemma str_examples:
  "UserProfile_str db1 \<lparr>profile_pk = 1, user_id = 1\<rparr> = Inr ''a@x.com'' \<and>
   UserProfile_str db1 \<lparr>profile_pk = 2, user_id = 3\<rparr> = Inr ''tmp-foo'' \<and>
   LinkedEmail_str db1
     \<lparr>email_pk = 2, profile_id = 2, address = ''foo@x.com'', is_verified = False\<rparr> =
     Inr ''tmp-foo | foo@x.com'' \<and>
   Institution_str db1 example_univ = Inr ''example'' \<and>
   InstitutionAccount_str db1
     \<lparr>account_pk = 1, account_profile_id = 1, institution_id = 1, cas_id = ''abc1''\<rparr> =
     Inr ''a@x.com | example | account''"
  by (simp add: UserProfile_str_def UserProfile_str_try_def LinkedEmail_str_def
        LinkedEmail_str_try_def Institution_str_def Institution_str_try_def
        InstitutionAccount_str_def InstitutionAccount_str_try_def get_user_def
        get_profile_def get_institution_def db1_def example_univ_def alice_def tmp_foo_def)

text \<open>
  C7. For each of the four entities the string rendering returns a string and never an
  exception; whenever the body of its \<^verbatim>\<open>try\<close> block raises (a relation of the entity
  cannot be loaded), the rendering is the marker \<^verbatim>\<open>NULL\<close>.
\<close>

theorem str_never_raises:
  "(\<exists>s. UserProfile_str d p = Inr s) \<and>
   (\<forall>x. UserProfile_str_try d p = Inl x \<longrightarrow> UserProfile_str d p = Inr ''NULL'') \<and>
   (\<exists>s. LinkedEmail_str d m = Inr s) \<and>
   (\<forall>x. LinkedEmail_str_try d m = Inl x \<longrightarrow> LinkedEmail_str d m = Inr ''NULL'') \<and>
   (\<exists>s. Institution_str d i = Inr s) \<and>
   (\<forall>x. Institution_str_try d i = Inl x \<longrightarrow> Institution_str d i = Inr ''NULL'') \<and>
   (\<exists>s. InstitutionAccount_str d a = Inr s) \<and>
   (\<forall>x. InstitutionAccount_str_try d a = Inl x \<longrightarrow>
      InstitutionAccount_str d a = Inr ''NULL'')"
  by (simp add: UserProfile_str_def LinkedEmail_str_def Institution_str_def
        InstitutionAccount_str_def split: sum.splits)

theorem str_never_raises_witness:
  "UserProfile_str_try db1 orphan_profile = Inl DoesNotExist \<and>
   UserProfile_str db1 orphan_profile = Inr ''NULL'' \<and>
   LinkedEmail_str_try db1 orphan_email = Inl DoesNotExist \<and>
   LinkedEmail_str db1 orphan_email = Inr ''NULL'' \<and>
   (\<exists>s. Institution_str db1 example_univ = Inr s) \<and>
   InstitutionAccount_str_try db1 orphan_account = Inl DoesNotExist \<and>
   InstitutionAccount_str db1 orphan_account = Inr ''NULL''"
proof -
  have p: "UserProfile_str_try db1 orphan_profile = Inl DoesNotExist"
    by (simp add: UserProfile_str_try_def get_user_def db1_def orphan_profile_def
          alice_def bob_def tmp_foo_def tmp_edge_def old_timer_def tmp_new_def)
  have m: "LinkedEmail_str_try db1 orphan_email = Inl DoesNotExist"
    by (simp add: LinkedEmail_str_try_def get_profile_def db1_def orphan_email_def)
  have a: "InstitutionAccount_str_try db1 orphan_account = Inl DoesNotExist"
    by (simp add: InstitutionAccount_str_try_def get_profile_def get_institution_def
          db1_def orphan_account_def example_univ_def)
  from p m a
    str_never_raises [of db1 orphan_profile orphan_email example_univ orphan_account]
  show ?thesis
    by blast
qed

end
